theory Spec2Isabelle
  imports Complex_Main
begin

section \<open>Data model of Main.py\<close>

text \<open>
  Python objects are shared by reference: a \<open>Task\<close> object sits in the manager's
  collection, in the dependency lists of other tasks and in the queues of the workers
  at the same time, and is mutated in place. The model therefore keeps the task objects
  in an explicit store, a function from references to task values; lists of tasks are
  lists of references. A reference always denotes an object (Python has no dangling
  reference), hence the store is a total function, and \<open>next_ref\<close> is the first
  reference that no object uses yet.
\<close>

type_synonym tref = nat

text \<open>Class \<open>Task\<close> (lines 27 to 36). The field \<open>id\<close> is named \<open>task_id\<close>.\<close>

record Task =
  task_id :: int
  description :: string
  priority :: int
  deadline :: "string option"
  dependencies :: "tref list"
  status :: string
  assigned_to :: "string option"
  is_completed :: bool

text \<open>
  Class \<open>AI\<close> (lines 10 to 17). The second component of a performance entry is the
  difference of two readings of \<open>time.time()\<close>, modelled as a real number.
\<close>

record AI =
  name :: string
  role :: string
  capabilities :: "string list"
  tasks :: "tref list"
  is_busy :: bool
  performance_record :: "(string \<times> real) list"

text \<open>
  The global state: the store of task objects, the module-level list \<open>ais\<close> and the
  list \<open>task_manager.tasks\<close>.
\<close>

record state =
  heap :: "tref \<Rightarrow> Task"
  next_ref :: tref
  ais :: "AI list"
  task_manager :: "tref list"

text \<open>The exceptions that the modelled code can raise.\<close>

datatype error = TypeError | ValueError | JSONDecodeError

text \<open>The constructor \<open>Task.__init__\<close> (lines 28 to 36), given the dependency list.\<close>

definition new_Task :: "int \<Rightarrow> string \<Rightarrow> int \<Rightarrow> string option \<Rightarrow> tref list \<Rightarrow> Task" where
  "new_Task i d p dl deps =
     \<lparr>task_id = i, description = d, priority = p, deadline = dl, dependencies = deps,
      status = ''Pending'', assigned_to = None, is_completed = False\<rparr>"

section \<open>Task.is_ready_to_execute\<close>

text \<open>Line 39: \<open>all(dep.is_completed for dep in self.dependencies)\<close>.\<close>

definition is_ready_to_execute :: "(tref \<Rightarrow> Task) \<Rightarrow> Task \<Rightarrow> bool" where
  "is_ready_to_execute h t = list_all (\<lambda>dep. is_completed (h dep)) (dependencies t)"

section \<open>TaskManager.update_task_status\<close>

text \<open>
  Lines 67 to 71: the loop over \<open>self.tasks\<close> stops (\<open>break\<close>) at the first task
  whose id equals \<open>task_id\<close>, after setting its status.
\<close>

fun update_loop :: "int \<Rightarrow> string \<Rightarrow> (tref \<Rightarrow> Task) \<Rightarrow> tref list \<Rightarrow> (tref \<Rightarrow> Task)" where
  "update_loop tid new_status h [] = h"
| "update_loop tid new_status h (t # ts) =
     (if task_id (h t) = tid then h(t := (h t)\<lparr>status := new_status\<rparr>)
      else update_loop tid new_status h ts)"

definition update_task_status :: "int \<Rightarrow> string \<Rightarrow> state \<Rightarrow> state" where
  "update_task_status tid new_status s =
     s\<lparr>heap := update_loop tid new_status (heap s) (task_manager s)\<rparr>"

section \<open>TaskManager.dynamic_prioritization\<close>

text \<open>
  \<open>time.struct_time\<close>, the result type of \<open>time.strptime\<close> and \<open>time.localtime\<close>: a
  tuple of nine integers with named fields.
\<close>

record struct_time =
  tm_year :: int
  tm_mon :: int
  tm_mday :: int
  tm_hour :: int
  tm_min :: int
  tm_sec :: int
  tm_wday :: int
  tm_yday :: int
  tm_isdst :: int

text \<open>
  The operator \<open>-\<close> on two \<open>struct_time\<close> values. The type is a tuple type and
  defines no subtraction, so Python raises \<open>TypeError\<close> (unsupported operand types),
  whatever the operands are.
\<close>

definition struct_time_sub :: "struct_time \<Rightarrow> struct_time \<Rightarrow> error + struct_time" where
  "struct_time_sub a b = Inl TypeError"

text \<open>
  Line 48: \<open>(time.strptime(task.deadline, "%Y-%m-%d") - time.localtime()).tm_yday\<close>.
  The parser is a parameter: \<open>strptime\<close> gives the parsed time or the exception it
  raises on a string that is not a date (\<open>ValueError\<close>). \<open>localtime\<close> is the reading
  of the clock.
\<close>

definition days_to_deadline ::
  "(string \<Rightarrow> error + struct_time) \<Rightarrow> struct_time \<Rightarrow> string \<Rightarrow> error + int" where
  "days_to_deadline strptime localtime dl =
     (case strptime dl of
        Inl e \<Rightarrow> Inl e
      | Inr parsed \<Rightarrow>
          (case struct_time_sub parsed localtime of
             Inl e \<Rightarrow> Inl e
           | Inr diff \<Rightarrow> Inr (tm_yday diff)))"

text \<open>
  The body of the loop, lines 47 to 52, for one task object; \<open>days\<close> computes the
  expression of line 48 from the deadline. \<open>task.deadline\<close> is true when it is neither
  \<open>None\<close> nor the empty string. The result is the task after the iteration, or the
  exception that ends the loop.
\<close>

definition prioritize_task :: "(string \<Rightarrow> error + int) \<Rightarrow> Task \<Rightarrow> error + Task" where
  "prioritize_task days task =
     (if status task = ''Pending'' then
        (case deadline task of
           None \<Rightarrow> Inr task
         | Some dl \<Rightarrow>
             if dl = [] then Inr task
             else
               (case days dl of
                  Inl e \<Rightarrow> Inl e
                | Inr d \<Rightarrow>
                    if d \<le> 2 then Inr (task\<lparr>priority := 1\<rparr>)
                    else if d \<le> 5 then Inr (task\<lparr>priority := 2\<rparr>)
                    else Inr task))
      else Inr task)"

text \<open>
  The loop of line 46 over the references in \<open>self.tasks\<close>. An exception leaves the
  store as the iterations before it have made it.
\<close>

fun prioritize_loop ::
  "(string \<Rightarrow> error + int) \<Rightarrow> (tref \<Rightarrow> Task) \<Rightarrow> tref list \<Rightarrow> (tref \<Rightarrow> Task) \<times> error option" where
  "prioritize_loop days h [] = (h, None)"
| "prioritize_loop days h (t # ts) =
     (case prioritize_task days (h t) of
        Inl e \<Rightarrow> (h, Some e)
      | Inr task \<Rightarrow> prioritize_loop days (h(t := task)) ts)"

text \<open>
  Lines 45 to 52: the state after the call, and the exception that the call raised, if
  any.
\<close>

definition dynamic_prioritization ::
  "(string \<Rightarrow> error + struct_time) \<Rightarrow> struct_time \<Rightarrow> state \<Rightarrow> state \<times> error option" where
  "dynamic_prioritization strptime localtime s =
     (case prioritize_loop (days_to_deadline strptime localtime) (heap s) (task_manager s) of
        (h, e) \<Rightarrow> (s\<lparr>heap := h\<rparr>, e))"

section \<open>TaskManager.assign_task\<close>

text \<open>
  \<open>str.lower()\<close> on the ASCII letters; every other character is left as it is. The
  model's strings are ASCII strings, as every string literal of the source is.
\<close>

definition lower_char :: "char \<Rightarrow> char" where
  "lower_char c =
     (case map_of (zip ''ABCDEFGHIJKLMNOPQRSTUVWXYZ'' ''abcdefghijklmnopqrstuvwxyz'') c of
        None \<Rightarrow> c
      | Some l \<Rightarrow> l)"

definition lower :: "string \<Rightarrow> string" where
  "lower str = map lower_char str"

text \<open>
  Line 55: \<open>[ai for ai in ais if task.description.lower() in ai.capabilities and not
  ai.is_busy]\<close>. \<open>ai.capabilities\<close> is a list of strings, so \<open>in\<close> is list membership:
  the lowered description has to be equal to an element of the list. A worker is
  denoted by its index in \<open>ais\<close>.
\<close>

definition suitable_ais :: "state \<Rightarrow> Task \<Rightarrow> nat list" where
  "suitable_ais s task =
     filter (\<lambda>i. lower (description task) \<in> set (capabilities (ais s ! i)) \<and> \<not> is_busy (ais s ! i))
       [0..<length (ais s)]"

text \<open>The logging call that \<open>assign_task\<close> makes (lines 61, 63 and 65).\<close>

datatype dispatch_log = Assigned_to string | Waiting_for_dependencies | No_suitable_AI

text \<open>
  Lines 54 to 65. \<open>random.choice(suitable_ais)\<close> returns the element at a random index
  below the length of the list; the number \<open>r\<close> is the random draw, reduced modulo the
  length, so that every possible choice is the result for some \<open>r\<close>. The function does
  not read the status of the task.
\<close>

definition assign_task :: "nat \<Rightarrow> tref \<Rightarrow> state \<Rightarrow> dispatch_log \<times> state" where
  "assign_task r t s =
     (let task = heap s t; suitable = suitable_ais s task in
      if suitable \<noteq> [] \<and> is_ready_to_execute (heap s) task then
        (let i = suitable ! (r mod length suitable);
             chosen_ai = ais s ! i
         in (Assigned_to (name chosen_ai),
             s\<lparr>heap := (heap s)(t := task\<lparr>assigned_to := Some (name chosen_ai), status := ''Assigned''\<rparr>),
               ais := (ais s)[i := chosen_ai\<lparr>tasks := tasks chosen_ai @ [t]\<rparr>]\<rparr>))
      else if \<not> is_ready_to_execute (heap s) task then (Waiting_for_dependencies, s)
      else (No_suitable_AI, s))"


section \<open>TaskManager.handle_errors and AI.record_performance\<close>

text \<open>Lines 73 to 75; the logging call has no effect on the state.\<close>

definition handle_errors :: "tref \<Rightarrow> state \<Rightarrow> state" where
  "handle_errors t s = s\<lparr>heap := (heap s)(t := (heap s t)\<lparr>status := ''Error''\<rparr>)\<rparr>"

text \<open>Lines 23 and 24.\<close>

definition record_performance :: "AI \<Rightarrow> Task \<Rightarrow> real \<Rightarrow> AI" where
  "record_performance ai task time_taken =
     ai\<lparr>performance_record := performance_record ai @ [(description task, time_taken)]\<rparr>"

section \<open>AIThread.run\<close>

text \<open>
  One iteration of the loop of lines 108 to 128, for the thread of the worker at index
  \<open>w\<close> of \<open>ais\<close>. \<open>fails\<close> is the value of \<open>random.choice([True, False])\<close> at line
  116, \<open>start_time\<close> and \<open>end_time\<close> are the two readings of \<open>time.time()\<close>. With an
  empty queue the iteration only sleeps. Otherwise it removes the first task of the
  queue and sets the busy flag; the \<open>try\<close> block marks the task completed, or raises
  and the handler calls \<open>handle_errors\<close>; the \<open>finally\<close> block runs on both paths.
\<close>

definition run_iteration :: "nat \<Rightarrow> bool \<Rightarrow> real \<Rightarrow> real \<Rightarrow> state \<Rightarrow> state" where
  "run_iteration w fails start_time end_time s =
     (case tasks (ais s ! w) of
        [] \<Rightarrow> s
      | task # rest \<Rightarrow>
          (let s1 = s\<lparr>ais := (ais s)[w := (ais s ! w)\<lparr>tasks := rest, is_busy := True\<rparr>]\<rparr>;
               s2 = (if fails then handle_errors task s1
                     else s1\<lparr>heap := (heap s1)(task := (heap s1 task)
                            \<lparr>is_completed := True, status := ''Completed''\<rparr>)\<rparr>);
               ai = (ais s2 ! w)\<lparr>is_busy := False\<rparr>
           in s2\<lparr>ais := (ais s2)[w := record_performance ai (heap s2 task) (end_time - start_time)]\<rparr>))"

section \<open>TaskManager.save_state and TaskManager.load_state\<close>

text \<open>
  The values that \<open>json.dump\<close> writes and \<open>json.load\<close> reads back: \<open>None\<close>, booleans,
  integers, strings, lists, and dictionaries as lists of key and value in insertion
  order. The text of the file is not modelled: the content of a file is the value it
  encodes, or, after a \<open>json.dump\<close> that raised in the middle of its output, a text that
  is not JSON.
\<close>

datatype json = JNull | JBool bool | JInt int | JStr string | JArr "json list"
  | JObj "(string \<times> json) list"

datatype file_content = Json json | Truncated

text \<open>
  \<open>json.dump\<close> on \<open>task.__dict__\<close>: the eight attributes in the order in which
  \<open>__init__\<close> sets them. An element of \<open>dependencies\<close> is a \<open>Task\<close> object, which
  the encoder cannot serialize: it raises \<open>TypeError\<close>.
\<close>

definition dump_task :: "Task \<Rightarrow> error + json" where
  "dump_task task =
     (if dependencies task \<noteq> [] then Inl TypeError
      else Inr (JObj
        [(''id'', JInt (task_id task)),
         (''description'', JStr (description task)),
         (''priority'', JInt (priority task)),
         (''deadline'', case deadline task of None \<Rightarrow> JNull | Some dl \<Rightarrow> JStr dl),
         (''dependencies'', JArr []),
         (''status'', JStr (status task)),
         (''assigned_to'', case assigned_to task of None \<Rightarrow> JNull | Some n \<Rightarrow> JStr n),
         (''is_completed'', JBool (is_completed task))]))"

fun dump_tasks :: "Task list \<Rightarrow> error + json list" where
  "dump_tasks [] = Inr []"
| "dump_tasks (task # rest) =
     (case dump_task task of
        Inl e \<Rightarrow> Inl e
      | Inr j \<Rightarrow> (case dump_tasks rest of Inl e \<Rightarrow> Inl e | Inr js \<Rightarrow> Inr (j # js)))"

text \<open>
  Lines 77 to 80: the content of the file after the call, and the exception raised, if
  any. The file is opened for writing before the encoder runs, so a failed call leaves
  the beginning of the output in it.
\<close>

definition save_state :: "state \<Rightarrow> file_content \<times> error option" where
  "save_state s =
     (case dump_tasks (map (heap s) (task_manager s)) of
        Inl e \<Rightarrow> (Truncated, Some e)
      | Inr js \<Rightarrow> (Json (JArr js), None))"

text \<open>
  The call \<open>Task(**task_data)\<close> of line 87, first part: binding the keyword arguments
  to the parameters of \<open>__init__\<close>. It raises \<open>TypeError\<close> if \<open>task_data\<close> is not a
  dictionary, if a key is not a parameter name, or if one of the four parameters
  without a default is missing.
\<close>

definition bind_arguments :: "json \<Rightarrow> error + (string \<rightharpoonup> json)" where
  "bind_arguments task_data =
     (case task_data of
        JObj kwargs \<Rightarrow>
          if list_ex (\<lambda>(k, v). k \<notin> set [''id'', ''description'', ''priority'', ''deadline'', ''dependencies''])
               kwargs
            then Inl TypeError
          else if list_ex (\<lambda>k. map_of kwargs k = None) [''id'', ''description'', ''priority'', ''deadline'']
            then Inl TypeError
          else Inr (map_of kwargs)
      | _ \<Rightarrow> Inl TypeError)"

text \<open>Python's truth value of a decoded JSON value.\<close>

fun truthy :: "json \<Rightarrow> bool" where
  "truthy JNull = False"
| "truthy (JBool b) = b"
| "truthy (JInt i) = (i \<noteq> 0)"
| "truthy (JStr str) = (str \<noteq> [])"
| "truthy (JArr xs) = (xs \<noteq> [])"
| "truthy (JObj kvs) = (kvs \<noteq> [])"

text \<open>
  Second part: the body of \<open>__init__\<close> (lines 29 to 36) on the bound arguments.
  Python stores whatever values it is given. The fields of the model are typed, so the
  result is \<open>None\<close> where a value does not have the type of its field (such a call is
  outside the model): the id and the priority are integers, the description is a string,
  the deadline is a string or \<open>None\<close>, and the dependencies are absent or false (line 33
  then takes the empty list).
\<close>

definition Task_init :: "(string \<rightharpoonup> json) \<Rightarrow> Task option" where
  "Task_init args =
     (case (args ''id'', args ''description'', args ''priority'') of
        (Some (JInt i), Some (JStr d), Some (JInt p)) \<Rightarrow>
          (if (case args ''dependencies'' of None \<Rightarrow> False | Some deps \<Rightarrow> truthy deps) then None
           else
             (case args ''deadline'' of
                Some JNull \<Rightarrow> Some (new_Task i d p None [])
              | Some (JStr dl) \<Rightarrow> Some (new_Task i d p (Some dl) [])
              | _ \<Rightarrow> None))
      | _ \<Rightarrow> None)"

text \<open>How a run of \<open>load_state\<close> ends.\<close>

datatype load_outcome = Loaded | Raised error | Outside_model

text \<open>
  The loop of lines 86 to 88: every new task object gets a fresh reference and is
  appended to \<open>self.tasks\<close>. An exception leaves the tasks appended so far.
\<close>

fun load_loop :: "json list \<Rightarrow> state \<Rightarrow> state \<times> load_outcome" where
  "load_loop [] s = (s, Loaded)"
| "load_loop (task_data # rest) s =
     (case bind_arguments task_data of
        Inl e \<Rightarrow> (s, Raised e)
      | Inr args \<Rightarrow>
          (case Task_init args of
             None \<Rightarrow> (s, Outside_model)
           | Some task \<Rightarrow>
               load_loop rest
                 (s\<lparr>heap := (heap s)(next_ref s := task), next_ref := Suc (next_ref s),
                    task_manager := task_manager s @ [next_ref s]\<rparr>)))"

text \<open>
  What \<open>for task_data in tasks\<close> iterates over: the elements of a list, the keys of a
  dictionary, the characters of a string; any other value is not iterable.
\<close>

definition iterate :: "json \<Rightarrow> error + json list" where
  "iterate j =
     (case j of
        JArr xs \<Rightarrow> Inr xs
      | JObj kvs \<Rightarrow> Inr (map (\<lambda>(k, v). JStr k) kvs)
      | JStr str \<Rightarrow> Inr (map (\<lambda>c. JStr [c]) str)
      | _ \<Rightarrow> Inl TypeError)"

text \<open>
  Lines 82 to 91. The file is absent (\<open>None\<close>: \<open>FileNotFoundError\<close> is caught and the
  manager starts with the tasks it has), or it has a content. No other exception is
  caught.
\<close>

definition load_state :: "file_content option \<Rightarrow> state \<Rightarrow> state \<times> load_outcome" where
  "load_state content s =
     (case content of
        None \<Rightarrow> (s, Loaded)
      | Some Truncated \<Rightarrow> (s, Raised JSONDecodeError)
      | Some (Json j) \<Rightarrow>
          (case iterate j of
             Inl e \<Rightarrow> (s, Raised e)
           | Inr task_datas \<Rightarrow> load_loop task_datas s))"

text \<open>
  The manager of the next process start (line 139): an empty collection. The objects of
  the process before are gone; the store keeps them, and no list of the new state
  mentions them.
\<close>

definition restart :: "state \<Rightarrow> state" where
  "restart s = s\<lparr>task_manager := []\<rparr>"

section \<open>Example states\<close>

text \<open>The four workers of lines 131 to 136.\<close>

definition Jexi :: AI where
  "Jexi = \<lparr>name = ''Jexi'', role = ''Data Analyst'',
     capabilities = [''analyze data'', ''predictive analysis'', ''data cleaning'', ''generate reports''],
     tasks = [], is_busy = False, performance_record = []\<rparr>"

definition Nova :: AI where
  "Nova = \<lparr>name = ''Nova'', role = ''Task Executor'',
     capabilities = [''cross-platform execution'', ''automation'', ''trigger-based automation'',
       ''automated testing''],
     tasks = [], is_busy = False, performance_record = []\<rparr>"

definition Astra :: AI where
  "Astra = \<lparr>name = ''Astra'', role = ''Research & Customer Support'',
     capabilities = [''market research'', ''customer support'', ''content curation'', ''trend analysis''],
     tasks = [], is_busy = False, performance_record = []\<rparr>"

definition Sung :: AI where
  "Sung = \<lparr>name = ''Sung'', role = ''Project Coordinator'',
     capabilities = [''task management'', ''code execution'', ''code review'', ''documentation''],
     tasks = [], is_busy = False, performance_record = []\<rparr>"

text \<open>
  The seed tasks of lines 144 to 148, at the references 0 to 3; every other reference
  holds a placeholder object that no list mentions.
\<close>

definition seed_heap :: "tref \<Rightarrow> Task" where
  "seed_heap =
     (\<lambda>_. new_Task 0 [] 0 None [])
       (0 := new_Task 1 ''Analyze various datasets'' 1 (Some ''2024-09-01'') [],
        1 := new_Task 2 ''Execute system backup'' 1 (Some ''2024-08-31'') [],
        2 := new_Task 3 ''Conduct market research on competitors'' 2 (Some ''2024-09-15'') [0],
        3 := new_Task 4 ''Review and optimize code for security'' 2 (Some ''2024-09-10'') [1])"

definition seed_state :: state where
  "seed_state = \<lparr>heap = seed_heap, next_ref = 4, ais = [Jexi, Nova, Astra, Sung],
     task_manager = [0, 1, 2, 3]\<rparr>"

text \<open>
  Two task objects with the same id 1 at the references 0 and 1, and another task
  between them in the collection: only the object at reference 0 changes.
\<close>

definition twin_state :: state where
  "twin_state = \<lparr>heap = seed_heap (1 := new_Task 1 ''Analyze various datasets again'' 3 None []),
     next_ref = 4, ais = [Jexi, Nova, Astra, Sung], task_manager = [2, 0, 1]\<rparr>"


text \<open>
  A state in which the task at reference 0 has been assigned to Nova already and the
  idle worker Jexi has a capability equal to its lowered description.
\<close>

definition assigned_state :: state where
  "assigned_state =
     \<lparr>heap = seed_heap (0 := (new_Task 1 ''Analyze Data'' 1 None [])
         \<lparr>status := ''Assigned'', assigned_to := Some ''Nova''\<rparr>),
      next_ref = 4, ais = [Jexi, Nova\<lparr>tasks := [0]\<rparr>, Astra, Sung], task_manager = [0, 1, 2, 3]\<rparr>"

text \<open>
  One pending task of priority 3 whose deadline is the first of September 2024.
\<close>

definition deadline_state :: state where
  "deadline_state =
     \<lparr>heap = (\<lambda>_. new_Task 0 [] 0 None []) (0 := new_Task 1 ''analyze data'' 3 (Some ''2024-09-01'') []),
      next_ref = 1, ais = [Jexi, Nova, Astra, Sung], task_manager = [0]\<rparr>"



section \<open>The matching policy in the words of the specification\<close>

text \<open>\<open>substring_of xs ys\<close>: the list \<open>xs\<close> occurs in \<open>ys\<close> as a contiguous block.\<close>

fun starts_with :: "'a list \<Rightarrow> 'a list \<Rightarrow> bool" where
  "starts_with ys [] = True"
| "starts_with [] (x # xs) = False"
| "starts_with (y # ys) (x # xs) = (x = y \<and> starts_with ys xs)"

fun substring_of :: "'a list \<Rightarrow> 'a list \<Rightarrow> bool" where
  "substring_of xs [] = (xs = [])"
| "substring_of xs (y # ys) = (starts_with (y # ys) xs \<or> substring_of xs ys)"

text \<open>
  The candidate set as the specification words it: the worker is not busy and one of
  its capabilities is a substring of the description, letter case ignored.
\<close>

definition spec_candidate :: "AI \<Rightarrow> Task \<Rightarrow> bool" where
  "spec_candidate ai task \<longleftrightarrow>
     \<not> is_busy ai \<and> list_ex (\<lambda>c. substring_of (lower c) (lower (description task))) (capabilities ai)"

definition spec_candidates :: "state \<Rightarrow> Task \<Rightarrow> nat list" where
  "spec_candidates s task = filter (\<lambda>i. spec_candidate (ais s ! i) task) [0..<length (ais s)]"

section \<open>Readiness\<close>

text \<open>
  C5. For every task T, \<open>is_ready_to_execute\<close> returns true if and only if every
  dependency of T has its completion flag true; in particular it returns true when T has
  no dependency.
\<close>

theorem is_ready_to_execute_iff:
  "(is_ready_to_execute h t \<longleftrightarrow> (\<forall>dep \<in> set (dependencies t). is_completed (h dep)))
   \<and> (dependencies t = [] \<longrightarrow> is_ready_to_execute h t)"
  by (simp add: is_ready_to_execute_def list_all_iff)

theorem is_ready_to_execute_iff_witness:
  "dependencies (seed_heap 0) = [] \<and> is_ready_to_execute seed_heap (seed_heap 0)
   \<and> dependencies (seed_heap 2) = [0] \<and> \<not> is_completed (seed_heap 0)
   \<and> \<not> is_ready_to_execute seed_heap (seed_heap 2)
   \<and> is_completed ((seed_heap (0 := (seed_heap 0)\<lparr>is_completed := True\<rparr>)) 0)
   \<and> is_ready_to_execute (seed_heap (0 := (seed_heap 0)\<lparr>is_completed := True\<rparr>)) (seed_heap 2)"
  using is_ready_to_execute_iff [of seed_heap "seed_heap 0"]
    is_ready_to_execute_iff [of seed_heap "seed_heap 2"]
    is_ready_to_execute_iff [of "seed_heap (0 := (seed_heap 0)\<lparr>is_completed := True\<rparr>)" "seed_heap 2"]
  by (simp add: seed_heap_def new_Task_def)

section \<open>Status updates\<close>

lemma update_loop_unknown:
  "\<forall>t \<in> set ts. task_id (h t) \<noteq> tid \<Longrightarrow> update_loop tid new_status h ts = h"
  by (induction ts) simp_all

lemma update_loop_first:
  "\<forall>b \<in> set pre. task_id (h b) \<noteq> tid \<Longrightarrow> task_id (h a) = tid \<Longrightarrow>
   update_loop tid new_status h (pre @ a # post) = h(a := (h a)\<lparr>status := new_status\<rparr>)"
  by (induction pre) simp_all

text \<open>
  C9. If no task of the manager's collection has the given id, \<open>update_task_status\<close>
  changes nothing: the state after the call is the state before it. The function has no
  raising statement, so its model returns a state and no error.
\<close>

theorem update_task_status_unknown_id:
  assumes "\<forall>t \<in> set (task_manager s). task_id (heap s t) \<noteq> tid"
  shows "update_task_status tid new_status s = s"
  using assms by (simp add: update_task_status_def update_loop_unknown)

theorem update_task_status_unknown_id_witness:
  "list_all (\<lambda>t. task_id (heap seed_state t) \<noteq> 7) (task_manager seed_state)
   \<and> update_task_status 7 ''Completed'' seed_state = seed_state"
proof -
  have h: "\<forall>t \<in> set (task_manager seed_state). task_id (heap seed_state t) \<noteq> 7"
    by (simp add: seed_state_def seed_heap_def new_Task_def)
  from update_task_status_unknown_id [OF h] h show ?thesis by (simp add: list_all_iff)
qed

text \<open>
  C10. If some task of the collection has the given id, let \<open>a\<close> be the first one in
  collection order. Then \<open>update_task_status\<close> sets the status of \<open>a\<close> and nothing
  else: the other fields of \<open>a\<close>, every other task object (also a later one with the
  same id), the workers and the collection itself are as before.
\<close>

theorem update_task_status_frame:
  assumes "task_manager s = pre @ a # post"
    and "\<forall>b \<in> set pre. task_id (heap s b) \<noteq> tid"
    and "task_id (heap s a) = tid"
  shows "heap (update_task_status tid new_status s) a = (heap s a)\<lparr>status := new_status\<rparr>
    \<and> (\<forall>b. b \<noteq> a \<longrightarrow> heap (update_task_status tid new_status s) b = heap s b)
    \<and> ais (update_task_status tid new_status s) = ais s
    \<and> task_manager (update_task_status tid new_status s) = task_manager s
    \<and> next_ref (update_task_status tid new_status s) = next_ref s"
  using assms by (simp add: update_task_status_def update_loop_first)


theorem update_task_status_frame_witness:
  "task_manager twin_state = [2] @ 0 # [1]
   \<and> list_all (\<lambda>b. task_id (heap twin_state b) \<noteq> 1) [2]
   \<and> task_id (heap twin_state 0) = 1 \<and> task_id (heap twin_state 1) = 1
   \<and> status (heap (update_task_status 1 ''Completed'' twin_state) 0) = ''Completed''
   \<and> status (heap (update_task_status 1 ''Completed'' twin_state) 1) = ''Pending''
   \<and> heap (update_task_status 1 ''Completed'' twin_state) 1 = heap twin_state 1
   \<and> heap (update_task_status 1 ''Completed'' twin_state) 2 = heap twin_state 2
   \<and> ais (update_task_status 1 ''Completed'' twin_state) = ais twin_state"
proof -
  have a: "task_manager twin_state = [2] @ 0 # [1]"
    by (simp add: twin_state_def)
  have b: "\<forall>b \<in> set [2]. task_id (heap twin_state b) \<noteq> 1"
    by (simp add: twin_state_def seed_heap_def new_Task_def)
  have c: "task_id (heap twin_state 0) = 1"
    by (simp add: twin_state_def seed_heap_def new_Task_def)
  have d: "task_id (heap twin_state 1) = 1" "status (heap twin_state 0) = ''Pending''"
    "status (heap twin_state 1) = ''Pending''"
    by (simp_all add: twin_state_def seed_heap_def new_Task_def)
  from update_task_status_frame [OF a b c, of "''Completed''"] a b c d
  show ?thesis by (simp add: list_all_iff)
qed

section \<open>Dispatch\<close>

text \<open>
  C1 as stated: the candidate set is the set of idle workers with a capability that is a
  case-insensitive substring of the description. On the seed data of the source this is
  false: the task "Conduct market research on competitors" is pending, the idle worker
  Astra (index 2) has the capability "market research", a substring of the description,
  and yet the candidate list that line 55 computes is empty.
\<close>

theorem suitable_ais_substring_counterexample:
  "status (seed_heap 2) = ''Pending''
   \<and> spec_candidates seed_state (seed_heap 2) = [2]
   \<and> suitable_ais seed_state (seed_heap 2) = []"
  by code_simp

text \<open>
  C1 as amended: the candidate list holds, each once, the workers whose busy flag is
  false and whose capability list has an element equal to the task's description in
  lower case.
\<close>

theorem suitable_ais_exact_match:
  "set (suitable_ais s task) =
     {i. i < length (ais s) \<and> \<not> is_busy (ais s ! i)
         \<and> lower (description task) \<in> set (capabilities (ais s ! i))}
   \<and> distinct (suitable_ais s task)"
  by (auto simp add: suitable_ais_def)








text \<open>
  C6. For a pending task that is not dependency-ready or has no candidate worker,
  \<open>assign_task\<close> leaves the whole state as it is: the status stays "Pending", the
  assigned-worker reference is unchanged and no queue grows. It logs the waiting message
  in the first case and the warning in the second.
\<close>

theorem assign_task_leaves_pending:
  assumes "status (heap s t) = ''Pending''"
    and "\<not> is_ready_to_execute (heap s) (heap s t) \<or> suitable_ais s (heap s t) = []"
  shows "snd (assign_task r t s) = s
    \<and> status (heap (snd (assign_task r t s)) t) = ''Pending''
    \<and> assigned_to (heap (snd (assign_task r t s)) t) = assigned_to (heap s t)
    \<and> map tasks (ais (snd (assign_task r t s))) = map tasks (ais s)
    \<and> fst (assign_task r t s) =
        (if is_ready_to_execute (heap s) (heap s t) then No_suitable_AI else Waiting_for_dependencies)"
  using assms by (auto simp add: assign_task_def Let_def)

theorem assign_task_leaves_pending_witness:
  "status (heap seed_state 2) = ''Pending'' \<and> \<not> is_ready_to_execute (heap seed_state) (heap seed_state 2)
   \<and> assign_task 0 2 seed_state = (Waiting_for_dependencies, seed_state)
   \<and> status (heap seed_state 0) = ''Pending'' \<and> is_ready_to_execute (heap seed_state) (heap seed_state 0)
   \<and> suitable_ais seed_state (heap seed_state 0) = []
   \<and> assign_task 0 0 seed_state = (No_suitable_AI, seed_state)"
proof -
  have p2: "status (heap seed_state 2) = ''Pending''"
    and n2: "\<not> is_ready_to_execute (heap seed_state) (heap seed_state 2)"
    and p0: "status (heap seed_state 0) = ''Pending''"
    and r0: "is_ready_to_execute (heap seed_state) (heap seed_state 0)"
    and e0: "suitable_ais seed_state (heap seed_state 0) = []"
    by code_simp+
  from assign_task_leaves_pending [OF p2 disjI1 [OF n2], of 0]
    assign_task_leaves_pending [OF p0 disjI2 [OF e0], of 0] p2 n2 p0 r0 e0
  show ?thesis by (simp add: prod_eq_iff)
qed

section \<open>Prioritization\<close>

text \<open>One iteration changes at most the priority, and doing it again changes nothing.\<close>

lemma prioritize_task_fields:
  assumes "prioritize_task days task = Inr task'"
  shows "task' = task\<lparr>priority := priority task'\<rparr>"
  using assms by (auto simp add: prioritize_task_def split: if_splits sum.splits option.splits)

lemma prioritize_task_again:
  assumes "prioritize_task days task = Inr task'"
  shows "prioritize_task days task' = Inr task'"
  using assms by (auto simp add: prioritize_task_def split: if_splits sum.splits option.splits)

lemma prioritize_loop_stable:
  assumes "prioritize_task days (h a) = Inr (h a)"
  shows "fst (prioritize_loop days h ts) a = h a"
  using assms
proof (induction ts arbitrary: h)
  case Nil
  then show ?case by simp
next
  case (Cons t ts)
  show ?case
  proof (cases "prioritize_task days (h t)")
    case (Inl e)
    then show ?thesis by simp
  next
    case (Inr task)
    have "prioritize_task days ((h(t := task)) a) = Inr ((h(t := task)) a)"
    proof (cases "t = a")
      case True
      with Inr Cons.prems show ?thesis by simp
    next
      case False
      with Cons.prems show ?thesis by simp
    qed
    then have "fst (prioritize_loop days (h(t := task)) ts) a = (h(t := task)) a"
      by (rule Cons.IH [of "h(t := task)"])
    moreover have "(h(t := task)) a = h a"
      using Inr Cons.prems by (cases "t = a") simp_all
    ultimately show ?thesis using Inr by simp
  qed
qed

lemma prioritize_loop_idem:
  "prioritize_loop days (fst (prioritize_loop days h ts)) ts = prioritize_loop days h ts"
proof (induction ts arbitrary: h)
  case Nil
  then show ?case by simp
next
  case (Cons t ts)
  show ?case
  proof (cases "prioritize_task days (h t)")
    case (Inl e)
    then show ?thesis by simp
  next
    case (Inr task)
    let ?h1 = "h(t := task)"
    let ?h2 = "fst (prioritize_loop days ?h1 ts)"
    have again: "prioritize_task days (?h1 t) = Inr (?h1 t)"
      using prioritize_task_again [OF Inr] by simp
    have same: "?h2 t = task"
      using again prioritize_loop_stable [of days ?h1 t ts] by simp
    have task_again: "prioritize_task days (?h2 t) = Inr task"
      using prioritize_task_again [OF Inr] same by simp
    have upd: "?h2(t := task) = ?h2"
      using same by (simp add: fun_upd_idem)
    have step: "prioritize_loop days ?h2 (t # ts) = prioritize_loop days ?h2 ts"
      by (simp only: prioritize_loop.simps task_again sum.case upd)
    have first: "prioritize_loop days h (t # ts) = prioritize_loop days ?h1 ts"
      using Inr by simp
    have "prioritize_loop days ?h2 ts = prioritize_loop days ?h1 ts"
      by (rule Cons.IH)
    with step first show ?thesis by simp
  qed
qed

lemma priority_update_self: "\<exists>p. (task :: Task) = task\<lparr>priority := p\<rparr>"
  by (rule exI [of _ "priority task"]) simp

lemma prioritize_loop_fields:
  "\<exists>p. fst (prioritize_loop days h ts) b = (h b)\<lparr>priority := p\<rparr>"
proof (induction ts arbitrary: h)
  case Nil
  show ?case by (simp add: priority_update_self)
next
  case (Cons t ts)
  show ?case
  proof (cases "prioritize_task days (h t)")
    case (Inl e)
    then show ?thesis by (simp add: priority_update_self)
  next
    case (Inr task)
    obtain p where p: "fst (prioritize_loop days (h(t := task)) ts) b = ((h(t := task)) b)\<lparr>priority := p\<rparr>"
      using Cons.IH [of "h(t := task)"] by blast
    obtain q where q: "(h(t := task)) b = (h b)\<lparr>priority := q\<rparr>"
    proof (cases "t = b")
      case True
      with prioritize_task_fields [OF Inr] that show ?thesis by simp
    next
      case False
      with priority_update_self [of "h b"] that show ?thesis by auto
    qed
    have "fst (prioritize_loop days h (t # ts)) b = (h b)\<lparr>priority := p\<rparr>"
      using Inr p q by simp
    then show ?thesis by blast
  qed
qed

text \<open>
  C8. Running \<open>dynamic_prioritization\<close> on the state that a first run has left, with
  the same clock reading, gives the same state (and the same exception, if the run
  raises); a run changes the status and the dependencies of no task, and changes
  neither the collection nor the workers.
\<close>

theorem dynamic_prioritization_idempotent:
  "dynamic_prioritization strptime localtime (fst (dynamic_prioritization strptime localtime s))
     = dynamic_prioritization strptime localtime s
   \<and> (\<forall>b. status (heap (fst (dynamic_prioritization strptime localtime s)) b) = status (heap s b)
          \<and> dependencies (heap (fst (dynamic_prioritization strptime localtime s)) b)
              = dependencies (heap s b))
   \<and> task_manager (fst (dynamic_prioritization strptime localtime s)) = task_manager s
   \<and> ais (fst (dynamic_prioritization strptime localtime s)) = ais s"
proof -
  let ?days = "days_to_deadline strptime localtime"
  obtain h e where run: "prioritize_loop ?days (heap s) (task_manager s) = (h, e)"
    by (cases "prioritize_loop ?days (heap s) (task_manager s)")
  have once: "dynamic_prioritization strptime localtime s = (s\<lparr>heap := h\<rparr>, e)"
    by (simp add: dynamic_prioritization_def run)
  have "prioritize_loop ?days (fst (prioritize_loop ?days (heap s) (task_manager s))) (task_manager s)
      = prioritize_loop ?days (heap s) (task_manager s)"
    by (rule prioritize_loop_idem)
  then have again: "prioritize_loop ?days h (task_manager s) = (h, e)"
    by (simp add: run)
  have twice: "dynamic_prioritization strptime localtime (s\<lparr>heap := h\<rparr>) = (s\<lparr>heap := h\<rparr>, e)"
    by (simp add: dynamic_prioritization_def again)
  have fields: "status (h b) = status (heap s b) \<and> dependencies (h b) = dependencies (heap s b)" for b
  proof -
    obtain p where "fst (prioritize_loop ?days (heap s) (task_manager s)) b = (heap s b)\<lparr>priority := p\<rparr>"
      using prioritize_loop_fields [of ?days "heap s" "task_manager s" b] by blast
    then have "h b = (heap s b)\<lparr>priority := p\<rparr>"
      by (simp add: run)
    then show ?thesis by simp
  qed
  show ?thesis
    by (simp add: once twice fields)
qed

text \<open>
  What the code does on a pending task with a deadline (C2): the subtraction of line 48
  raises, so the call ends with an exception (the parser's, if the deadline is no date,
  and \<open>TypeError\<close> otherwise) before any priority is written. Here the task has
  priority 3 and the deadline 2024-09-01; whatever the clock reads, also the day before
  the deadline, the state after the call is the state before it.
\<close>

theorem dynamic_prioritization_raises:
  "dynamic_prioritization strptime localtime deadline_state =
     (deadline_state, Some (case strptime ''2024-09-01'' of Inl e \<Rightarrow> e | Inr parsed \<Rightarrow> TypeError))
   \<and> status (heap deadline_state 0) = ''Pending''
   \<and> deadline (heap deadline_state 0) = Some ''2024-09-01''
   \<and> priority (heap (fst (dynamic_prioritization strptime localtime deadline_state)) 0) = 3"
proof -
  have run: "dynamic_prioritization strptime localtime deadline_state =
     (deadline_state, Some (case strptime ''2024-09-01'' of Inl e \<Rightarrow> e | Inr parsed \<Rightarrow> TypeError))"
    by (cases "strptime ''2024-09-01''")
      (simp_all add: dynamic_prioritization_def deadline_state_def new_Task_def prioritize_task_def
        days_to_deadline_def struct_time_sub_def)
  have "status (heap deadline_state 0) = ''Pending''"
    "deadline (heap deadline_state 0) = Some ''2024-09-01''"
    "priority (heap deadline_state 0) = 3"
    by (simp_all add: deadline_state_def new_Task_def)
  with run show ?thesis by simp
qed

text \<open>No run of \<open>dynamic_prioritization\<close> writes a priority, on any state.\<close>

lemma days_to_deadline_raises: "days_to_deadline strptime localtime dl \<noteq> Inr d"
  by (simp add: days_to_deadline_def struct_time_sub_def split: sum.splits)

lemma prioritize_task_unchanged:
  assumes "prioritize_task (days_to_deadline strptime localtime) task = Inr task'"
  shows "task' = task"
  using assms days_to_deadline_raises [of strptime localtime]
  by (auto simp add: prioritize_task_def split: if_splits option.splits sum.splits)

lemma prioritize_loop_unchanged:
  "fst (prioritize_loop (days_to_deadline strptime localtime) h ts) = h"
proof (induction ts)
  case Nil
  show ?case by simp
next
  case (Cons t ts)
  show ?case
  proof (cases "prioritize_task (days_to_deadline strptime localtime) (h t)")
    case (Inl e)
    then show ?thesis by simp
  next
    case (Inr task)
    with prioritize_task_unchanged [OF Inr] Cons.IH show ?thesis by simp
  qed
qed

lemma dynamic_prioritization_unchanged:
  "fst (dynamic_prioritization strptime localtime s) = s"
  using prioritize_loop_unchanged [of strptime localtime "heap s" "task_manager s"]
  by (cases "prioritize_loop (days_to_deadline strptime localtime) (heap s) (task_manager s)")
    (simp add: dynamic_prioritization_def)

section \<open>The execution loop of a worker\<close>

text \<open>
  C7. An iteration of the loop of worker \<open>w\<close> that dequeues a task ends with the busy
  flag of the worker false and with exactly one entry more in its performance record,
  the description of the task and the elapsed time, whether the execution succeeds
  (status "Completed") or fails (status "Error").
\<close>

theorem run_iteration_resets_busy:
  assumes "w < length (ais s)"
    and "tasks (ais s ! w) = task # rest"
  shows "\<not> is_busy (ais (run_iteration w fails start_time end_time s) ! w)
    \<and> performance_record (ais (run_iteration w fails start_time end_time s) ! w)
        = performance_record (ais s ! w) @ [(description (heap s task), end_time - start_time)]
    \<and> tasks (ais (run_iteration w fails start_time end_time s) ! w) = rest
    \<and> status (heap (run_iteration w fails start_time end_time s) task)
        = (if fails then ''Error'' else ''Completed'')"
  using assms
  by (simp add: run_iteration_def Let_def handle_errors_def record_performance_def)

theorem run_iteration_resets_busy_witness:
  "1 < length (ais assigned_state) \<and> tasks (ais assigned_state ! 1) = [0]
   \<and> \<not> is_busy (ais (run_iteration 1 True 10 13 assigned_state) ! 1)
   \<and> performance_record (ais (run_iteration 1 True 10 13 assigned_state) ! 1) = [(''Analyze Data'', 3)]
   \<and> status (heap (run_iteration 1 True 10 13 assigned_state) 0) = ''Error''
   \<and> \<not> is_busy (ais (run_iteration 1 False 10 13 assigned_state) ! 1)
   \<and> performance_record (ais (run_iteration 1 False 10 13 assigned_state) ! 1) = [(''Analyze Data'', 3)]
   \<and> status (heap (run_iteration 1 False 10 13 assigned_state) 0) = ''Completed''"
proof -
  have len: "1 < length (ais assigned_state)"
    by (simp add: assigned_state_def)
  have queue: "tasks (ais assigned_state ! 1) = 0 # []"
    by (simp add: assigned_state_def)
  have before: "performance_record (ais assigned_state ! 1) = []"
    "description (heap assigned_state 0) = ''Analyze Data''"
    by (simp_all add: assigned_state_def Nova_def new_Task_def)
  from run_iteration_resets_busy [OF len queue, of True 10 13]
    run_iteration_resets_busy [OF len queue, of False 10 13] len queue before
  show ?thesis by simp
qed

section \<open>Persistence\<close>

text \<open>
  Every dictionary that \<open>save_state\<close> writes has the keys "status", "assigned_to" and
  "is_completed", which are no parameters of \<open>Task.__init__\<close>.
\<close>

lemma bind_arguments_dump_task:
  assumes "dump_task task = Inr j"
  shows "bind_arguments j = Inl TypeError"
  using assms by (auto simp add: dump_task_def bind_arguments_def split: if_splits)

lemma dump_tasks_Cons:
  assumes "dump_tasks (task # rest) = Inr js"
  shows "\<exists>j js'. js = j # js' \<and> dump_task task = Inr j"
  using assms by (auto split: sum.splits)

lemma load_state_after_save_state:
  assumes "task_manager s \<noteq> []"
    and "save_state s = (content, None)"
  shows "load_state (Some content) s0 = (s0, Raised TypeError)"
proof -
  obtain t ts where tm: "task_manager s = t # ts"
    using assms(1) by (cases "task_manager s") auto
  from assms(2) obtain js where js: "dump_tasks (map (heap s) (task_manager s)) = Inr js"
    and content: "content = Json (JArr js)"
    by (auto simp add: save_state_def split: sum.splits)
  from js tm have "dump_tasks (heap s t # map (heap s) ts) = Inr js"
    by simp
  from dump_tasks_Cons [OF this] obtain j js' where "js = j # js'" "dump_task (heap s t) = Inr j"
    by blast
  with bind_arguments_dump_task [of "heap s t" j] content show ?thesis
    by (simp add: load_state_def iterate_def)
qed

lemma save_state_dependencies:
  assumes "t \<in> set (task_manager s)" and "dependencies (heap s t) \<noteq> []"
  shows "save_state s = (Truncated, Some TypeError)"
proof -
  have raises: "dump_tasks (map h ts) = Inl TypeError"
    if "t \<in> set ts" "dependencies (h t) \<noteq> []" for h ts
    using that
  proof (induction ts)
    case Nil
    then show ?case by simp
  next
    case (Cons a ts)
    show ?case
    proof (cases "dependencies (h a) = []")
      case True
      with Cons have "dump_tasks (map h ts) = Inl TypeError" by auto
      then show ?thesis by (simp add: dump_task_def True split: sum.splits)
    next
      case False
      then show ?thesis by (simp add: dump_task_def)
    qed
  qed
  from assms raises [of "task_manager s" "heap s"] show ?thesis
    by (simp add: save_state_def)
qed

text \<open>
  What the code does on a save followed by a load (C3). The collection of one task
  without dependencies is written, and reading the file back raises \<open>TypeError\<close> at
  the first dictionary, so that the collection of the restarted manager stays empty.
  The seed collection has tasks with dependencies: there \<open>save_state\<close> itself raises
  \<open>TypeError\<close> and leaves a file that \<open>load_state\<close> cannot decode.
\<close>

theorem save_state_load_state_raises:
  "save_state deadline_state =
     (Json (JArr [JObj
        [(''id'', JInt 1), (''description'', JStr ''analyze data''), (''priority'', JInt 3),
         (''deadline'', JStr ''2024-09-01''), (''dependencies'', JArr []),
         (''status'', JStr ''Pending''), (''assigned_to'', JNull), (''is_completed'', JBool False)]]),
      None)
   \<and> load_state (Some (fst (save_state deadline_state))) (restart deadline_state)
       = (restart deadline_state, Raised TypeError)
   \<and> task_manager (restart deadline_state) = []
   \<and> task_manager deadline_state = [0]
   \<and> save_state seed_state = (Truncated, Some TypeError)
   \<and> load_state (Some (fst (save_state seed_state))) (restart seed_state)
       = (restart seed_state, Raised JSONDecodeError)"
proof -
  have saved: "save_state deadline_state =
     (Json (JArr [JObj
        [(''id'', JInt 1), (''description'', JStr ''analyze data''), (''priority'', JInt 3),
         (''deadline'', JStr ''2024-09-01''), (''dependencies'', JArr []),
         (''status'', JStr ''Pending''), (''assigned_to'', JNull), (''is_completed'', JBool False)]]),
      None)"
    by (simp add: save_state_def deadline_state_def dump_task_def new_Task_def)
  have loaded: "load_state (Some (fst (save_state deadline_state))) (restart deadline_state)
       = (restart deadline_state, Raised TypeError)"
    by (simp add: saved load_state_def iterate_def bind_arguments_def)
  have seed: "save_state seed_state = (Truncated, Some TypeError)"
    by (rule save_state_dependencies [of 2]) (simp_all add: seed_state_def seed_heap_def new_Task_def)
  have seed_loaded: "load_state (Some (fst (save_state seed_state))) (restart seed_state)
       = (restart seed_state, Raised JSONDecodeError)"
    by (simp add: seed load_state_def)
  have "task_manager (restart deadline_state) = []" "task_manager deadline_state = [0]"
    by (simp_all add: restart_def deadline_state_def)
  with saved loaded seed seed_loaded show ?thesis by simp
qed

end
